theory Spec2Isabelle
  imports Main
begin

section \<open>The eBay client: requests, responses and errors\<close>

text \<open>
  A shallow embedding of \<^verbatim>\<open>ebay.go\<close>. The Go standard library and
  \<^verbatim>\<open>github.com/pkg/errors\<close> are not part of the repository. Their two string
  predicates and the error constructors are written out below as their documentation
  gives them; everything else the client calls (URL parsing and resolution, the JSON
  encoder and decoder, \<^verbatim>\<open>http.NewRequest\<close>, the HTTP transport, the request dump)
  is a field of an environment record, so that every theorem about the client holds for
  whatever these functions compute.
\<close>

subsection \<open>Strings\<close>

text \<open>
  \<^verbatim>\<open>strings.HasPrefix\<close> and \<^verbatim>\<open>strings.HasSuffix\<close>: a length test and a
  comparison of the first (last) bytes.
\<close>

definition HasPrefix :: "string \<Rightarrow> string \<Rightarrow> bool" where
  "HasPrefix s prefix = (length prefix \<le> length s \<and> take (length prefix) s = prefix)"

definition HasSuffix :: "string \<Rightarrow> string \<Rightarrow> bool" where
  "HasSuffix s suffix =
     (length suffix \<le> length s \<and> drop (length s - length suffix) s = suffix)"

subsection \<open>Responses and error values\<close>

text \<open>
  Of \<^verbatim>\<open>http.Response\<close> the client reads the status code and the body. \<open>Body\<close> is
  the part of the body stream that has not been read yet; \<open>Closed\<close> records that
  \<^verbatim>\<open>Body.Close\<close> ran. Status codes and error ids are Go \<^verbatim>\<open>int\<close>s that are only
  compared, never computed with, so they are integers here.
\<close>

record response =
  StatusCode :: int
  Body :: string
  Closed :: bool

record Parameter =
  Name :: string
  Value :: string

record Error =
  ErrorID :: int
  Domain :: string
  SubDomain :: string
  Category :: string
  Message :: string
  LongMessage :: string
  InputRefIds :: "string list"
  OuputRefIds :: "string list"
  Parameters :: "Parameter list"

text \<open>
  \<^verbatim>\<open>ErrorData\<close>. The field \<open>response\<close> is a pointer in the source; the record
  keeps the response as it was when the error value was built. Its status code never
  changes afterwards. A nil slice is the empty list.
\<close>

record ErrorData =
  Errors :: "Error list"
  response :: response
  requestDump :: string

text \<open>
  A non-nil value of Go's \<^verbatim>\<open>error\<close> interface, by its dynamic type:
  a \<^verbatim>\<open>*ErrorData\<close> (a pointer, which may itself be nil), the value of
  \<^verbatim>\<open>errors.New\<close>, the value of \<^verbatim>\<open>fmt.Errorf\<close>, an error wrapped by
  \<^verbatim>\<open>errors.WithStack\<close>, or an error of a library type (\<^verbatim>\<open>*url.Error\<close>,
  a JSON or transport error) with its message. The nil interface is \<open>None\<close> of
  \<open>go_error option\<close>.
\<close>

datatype go_error =
    ErrorDataPtr "ErrorData option"
  | New string
  | Errorf string
  | WithStack go_error
  | Lib string

text \<open>\<^verbatim>\<open>errors.WithStack\<close> returns nil when it is given nil.\<close>

definition errors_WithStack :: "go_error option \<Rightarrow> go_error option" where
  "errors_WithStack err = (case err of None \<Rightarrow> None | Some e \<Rightarrow> Some (WithStack e))"

text \<open>
  What a call that can panic does: it returns a value, returns an error, or panics
  (a nil pointer dereference).
\<close>

datatype 'a outcome = Returned 'a | Failed go_error | Panicked

subsection \<open>The library environment\<close>

text \<open>
  The functions of Go's libraries that the client calls, one field each:
  \<^item> \<open>url_Parse\<close> is \<^verbatim>\<open>url.Parse\<close>: an error or a URL;
  \<^item> \<open>URL_Parse\<close> is the method \<^verbatim>\<open>(*URL).Parse\<close>, which resolves a reference
    against its receiver; the receiver is a pointer and may be nil (\<open>None\<close>), and the
    method may panic on it;
  \<^item> \<open>URL_String\<close> is \<^verbatim>\<open>(*URL).String\<close>;
  \<^item> \<open>json_Encode\<close> is \<^verbatim>\<open>(*json.Encoder).Encode\<close> on a fresh buffer; its first
    argument is the encoder's HTML escaping flag, its result the bytes written;
  \<^item> \<open>http_NewRequest\<close> is \<^verbatim>\<open>http.NewRequest\<close>; its third argument is the
    payload, \<open>None\<close> for a nil reader;
  \<^item> \<open>http_DefaultClient\<close> is \<^verbatim>\<open>http.DefaultClient\<close>; an HTTP client is the
    function its \<^verbatim>\<open>Do\<close> method computes;
  \<^item> \<open>httputil_DumpRequest\<close> is \<^verbatim>\<open>httputil.DumpRequest\<close> with the body
    included: the dump and an error;
  \<^item> \<open>WithContext\<close> is \<^verbatim>\<open>(*http.Request).WithContext\<close>;
  \<^item> \<open>json_Decode\<close> is \<^verbatim>\<open>(*json.Decoder).Decode\<close> into the caller's
    destination: from the unread body and the destination it gives the body that is
    left, the destination as the decoder leaves it, and an error;
  \<^item> \<open>json_Decode_ErrorData\<close> is the same method decoding into an
    \<^verbatim>\<open>*ErrorData\<close>. \<^verbatim>\<open>Errors\<close> is the only exported field, so the decoder
    reads and writes nothing else of it.
\<close>

record ('u, 'b, 'req, 'ctx, 'v) env =
  url_Parse :: "string \<Rightarrow> go_error + 'u"
  URL_Parse :: "'u option \<Rightarrow> string \<Rightarrow> 'u outcome"
  URL_String :: "'u \<Rightarrow> string"
  json_Encode :: "bool \<Rightarrow> 'b \<Rightarrow> go_error + string"
  http_NewRequest :: "string \<Rightarrow> string \<Rightarrow> string option \<Rightarrow> go_error + 'req"
  http_DefaultClient :: "'req \<Rightarrow> go_error + response"
  httputil_DumpRequest :: "'req \<Rightarrow> string \<times> go_error option"
  WithContext :: "'req \<Rightarrow> 'ctx \<Rightarrow> 'req"
  json_Decode :: "string \<Rightarrow> 'v \<Rightarrow> string \<times> 'v \<times> go_error option"
  json_Decode_ErrorData ::
    "string \<Rightarrow> Error list \<Rightarrow> string \<times> Error list \<times> go_error option"

subsection \<open>The client and its construction\<close>

text \<open>
  \<^verbatim>\<open>Client\<close>: the HTTP client and the base URL, a pointer that may be nil. The
  field \<^verbatim>\<open>Buy\<close> only points back at the client and is left out.
\<close>

record ('u, 'req) Client =
  client :: "'req \<Rightarrow> go_error + response"
  baseURL :: "'u option"

definition BaseURL :: string where
  "BaseURL = ''https://api.ebay.com/''"

definition SandboxBaseURL :: string where
  "SandboxBaseURL = ''https://api.sandbox.ebay.com/''"

text \<open>
  \<^verbatim>\<open>newClient\<close> drops the error of \<^verbatim>\<open>url.Parse\<close>, which returns a nil URL
  together with an error.
\<close>

definition newClient ::
  "('u, 'b, 'req, 'ctx, 'v) env \<Rightarrow> ('req \<Rightarrow> go_error + response) option \<Rightarrow> string
     \<Rightarrow> ('u, 'req) Client" where
  "newClient env httpclient base =
     (let httpclient' = (case httpclient of None \<Rightarrow> http_DefaultClient env | Some h \<Rightarrow> h);
          url = (case url_Parse env base of Inl _ \<Rightarrow> None | Inr u \<Rightarrow> Some u)
      in \<lparr>client = httpclient', baseURL = url\<rparr>)"

definition NewClient ::
  "('u, 'b, 'req, 'ctx, 'v) env \<Rightarrow> ('req \<Rightarrow> go_error + response) option
     \<Rightarrow> ('u, 'req) Client" where
  "NewClient env httpclient = newClient env httpclient BaseURL"

definition NewSandboxClient ::
  "('u, 'b, 'req, 'ctx, 'v) env \<Rightarrow> ('req \<Rightarrow> go_error + response) option
     \<Rightarrow> ('u, 'req) Client" where
  "NewSandboxClient env httpclient = newClient env httpclient SandboxBaseURL"

definition NewCustomClient ::
  "('u, 'b, 'req, 'ctx, 'v) env \<Rightarrow> ('req \<Rightarrow> go_error + response) option \<Rightarrow> string
     \<Rightarrow> go_error + ('u, 'req) Client" where
  "NewCustomClient env httpclient base =
     (if \<not> HasSuffix base ''/''
      then Inl (Errorf (''BaseURL '' @ base @ '' must have a trailing slash''))
      else Inr (newClient env httpclient base))"

subsection \<open>Building a request\<close>

text \<open>
  An \<^verbatim>\<open>Opt\<close> mutates the request it is given; here it returns the mutated request.
  The loop over the options is \<open>applyOpts\<close>.
\<close>

fun applyOpts :: "('req \<Rightarrow> 'req) list \<Rightarrow> 'req \<Rightarrow> 'req" where
  "applyOpts [] req = req"
| "applyOpts (opt # opts) req = applyOpts opts (opt req)"

definition NewRequest ::
  "('u, 'b, 'req, 'ctx, 'v) env \<Rightarrow> ('u, 'req) Client \<Rightarrow> string \<Rightarrow> string \<Rightarrow> 'b option
     \<Rightarrow> ('req \<Rightarrow> 'req) list \<Rightarrow> 'req outcome" where
  "NewRequest env c method url body opts =
     (if HasPrefix url ''/''
      then Failed (New ''url should always be specified without a preceding slash'')
      else
        case URL_Parse env (baseURL c) url of
          Panicked \<Rightarrow> Panicked
        | Failed err \<Rightarrow> Failed (WithStack err)
        | Returned u \<Rightarrow>
            (case (case body of
                     None \<Rightarrow> Inr None
                   | Some b \<Rightarrow>
                       (case json_Encode env False b of
                          Inl err \<Rightarrow> Inl err
                        | Inr s \<Rightarrow> Inr (Some s))) of
               Inl err \<Rightarrow> Failed err
             | Inr buf \<Rightarrow>
                 (case http_NewRequest env method (URL_String env u) buf of
                    Inl err \<Rightarrow> Failed (WithStack err)
                  | Inr req \<Rightarrow> Returned (applyOpts opts req))))"

subsection \<open>Checking a response\<close>

text \<open>
  \<^verbatim>\<open>CheckResponse\<close> reads the body of a response outside the 2xx range, so it
  returns the response as it leaves it together with the error. The error of the
  decoder is dropped.
\<close>

definition CheckResponse ::
  "('u, 'b, 'req, 'ctx, 'v) env \<Rightarrow> 'req \<Rightarrow> response \<Rightarrow> string
     \<Rightarrow> response \<times> go_error option" where
  "CheckResponse env req resp dump =
     (let s = StatusCode resp in
      if 200 \<le> s \<and> s < 300 then (resp, None)
      else
        let errorData = \<lparr>Errors = [], response = resp, requestDump = dump\<rparr>;
            (rest, errs, _) = json_Decode_ErrorData env (Body resp) (Errors errorData)
        in (resp\<lparr>Body := rest\<rparr>, Some (ErrorDataPtr (Some (errorData\<lparr>Errors := errs\<rparr>)))))"

subsection \<open>Sending a request\<close>

text \<open>
  What a call of \<^verbatim>\<open>Do\<close> leaves behind: the error it returns, the destination,
  and the response (\<open>None\<close> when the transport gave none).
\<close>

record 'v do_result =
  do_err :: "go_error option"
  do_dest :: "'v option"
  do_resp :: "response option"

definition Body_Close :: "response \<Rightarrow> response" where
  "Body_Close resp = resp\<lparr>Closed := True\<rparr>"

text \<open>The deferred \<^verbatim>\<open>resp.Body.Close()\<close> runs on every return after the response arrived.\<close>

definition Do ::
  "('u, 'b, 'req, 'ctx, 'v) env \<Rightarrow> ('u, 'req) Client \<Rightarrow> 'ctx \<Rightarrow> 'req \<Rightarrow> 'v option
     \<Rightarrow> 'v do_result" where
  "Do env c ctx req v =
     (let dump = fst (httputil_DumpRequest env req) in
      case client c (WithContext env req ctx) of
        Inl err \<Rightarrow> \<lparr>do_err = errors_WithStack (Some err), do_dest = v, do_resp = None\<rparr>
      | Inr resp \<Rightarrow>
          (case CheckResponse env req resp dump of
             (resp', Some err) \<Rightarrow>
               \<lparr>do_err = Some err, do_dest = v, do_resp = Some (Body_Close resp')\<rparr>
           | (resp', None) \<Rightarrow>
               (case v of
                  None \<Rightarrow> \<lparr>do_err = None, do_dest = None, do_resp = Some (Body_Close resp')\<rparr>
                | Some d \<Rightarrow>
                    (let (rest, d', derr) = json_Decode env (Body resp') d in
                     \<lparr>do_err = errors_WithStack derr, do_dest = Some d',
                      do_resp = Some (Body_Close (resp'\<lparr>Body := rest\<rparr>))\<rparr>))))"

subsection \<open>Matching error codes\<close>

text \<open>The inner loop of \<^verbatim>\<open>IsError\<close>, over the codes, and the outer one, over the entries.\<close>

fun IsError_codes :: "Error \<Rightarrow> int list \<Rightarrow> bool" where
  "IsError_codes e [] = False"
| "IsError_codes e (code # codes) = (if ErrorID e = code then True else IsError_codes e codes)"

fun IsError_entries :: "Error list \<Rightarrow> int list \<Rightarrow> bool" where
  "IsError_entries [] codes = False"
| "IsError_entries (e # es) codes =
     (if IsError_codes e codes then True else IsError_entries es codes)"

text \<open>
  The type assertion succeeds on every \<^verbatim>\<open>*ErrorData\<close>, also on a nil one, whose
  \<^verbatim>\<open>Errors\<close> cannot be read.
\<close>

definition IsError :: "go_error option \<Rightarrow> int list \<Rightarrow> bool outcome" where
  "IsError err codes =
     (case err of
        None \<Rightarrow> Returned False
      | Some (ErrorDataPtr None) \<Rightarrow> Panicked
      | Some (ErrorDataPtr (Some errData)) \<Rightarrow> Returned (IsError_entries (Errors errData) codes)
      | Some _ \<Rightarrow> Returned False)"

section \<open>A sample environment\<close>

text \<open>
  A small environment and a mock server, on which the theorems below are run at
  concrete inputs. It does what Go's libraries do on the inputs used there and is kept
  simple everywhere else: a URL is its text, a reference without a scheme is resolved
  against a base ending in a slash by appending it, the encoder knows strings of
  printable ASCII and a channel (which \<^verbatim>\<open>encoding/json\<close> refuses), and the decoders
  know the documents listed and take every other body for malformed.
\<close>

datatype sample_body = GoString string | GoChan

record sample_request =
  Method :: string
  URL :: string
  Payload :: "string option"
  Header :: "(string \<times> string) list"

record item =
  ItemID :: string
  Total :: int

definition sample_url_Parse :: "string \<Rightarrow> go_error + string" where
  "sample_url_Parse s =
     (if HasPrefix s '':'' then Inl (Lib ''missing protocol scheme'') else Inr s)"

definition sample_URL_Parse :: "string option \<Rightarrow> string \<Rightarrow> string outcome" where
  "sample_URL_Parse base ref =
     (case sample_url_Parse ref of
        Inl e \<Rightarrow> Failed e
      | Inr r \<Rightarrow> (case base of None \<Rightarrow> Panicked | Some b \<Rightarrow> Returned (b @ r)))"

text \<open>
  A JSON string: the quote and the backslash are escaped with a backslash; with HTML
  escaping on, the characters \<open><\<close>, \<open>>\<close> and \<open>&\<close> are written as the escapes
  \<^verbatim>\<open>u003c\<close>, \<^verbatim>\<open>u003e\<close> and \<^verbatim>\<open>u0026\<close> after a backslash.
  \<^verbatim>\<open>Encode\<close> ends the value with a newline.
\<close>

definition sample_escape :: "bool \<Rightarrow> char \<Rightarrow> string" where
  "sample_escape escapeHTML c =
     (if c = CHR 0x22 \<or> c = CHR 0x5C then [CHR 0x5C, c]
      else if escapeHTML \<and> c = CHR ''<'' then CHR 0x5C # ''u003c''
      else if escapeHTML \<and> c = CHR ''>'' then CHR 0x5C # ''u003e''
      else if escapeHTML \<and> c = CHR ''&'' then CHR 0x5C # ''u0026''
      else [c])"

definition sample_json_Encode :: "bool \<Rightarrow> sample_body \<Rightarrow> go_error + string" where
  "sample_json_Encode escapeHTML b =
     (case b of
        GoChan \<Rightarrow> Inl (Lib ''json: unsupported type: chan int'')
      | GoString s \<Rightarrow>
          Inr ([CHR 0x22] @ concat (map (sample_escape escapeHTML) s) @ [CHR 0x22, CHR 0x0A]))"

definition sample_http_NewRequest ::
  "string \<Rightarrow> string \<Rightarrow> string option \<Rightarrow> go_error + sample_request" where
  "sample_http_NewRequest method url buf =
     (if CHR '' '' \<in> set method then Inl (Lib ''net/http: invalid method'')
      else Inr \<lparr>Method = (if method = [] then ''GET'' else method), URL = url,
                Payload = buf, Header = []\<rparr>)"

text \<open>
  The mock server: one address refuses the connection, the others answer with one of
  four responses.
\<close>

definition sample_found :: response where
  \<open>sample_found = \<lparr>StatusCode = 200, Body = ''{"itemId":"itemId"}'', Closed = False\<rparr>\<close>

definition sample_mistyped :: response where
  \<open>sample_mistyped =
     \<lparr>StatusCode = 200, Body = ''{"itemId":"x","total":"many"}'', Closed = False\<rparr>\<close>

definition sample_not_found :: response where
  \<open>sample_not_found =
     \<lparr>StatusCode = 404, Body = ''{"errors":[{"errorId":11001}]}'', Closed = False\<rparr>\<close>

definition sample_bad_gateway :: response where
  "sample_bad_gateway =
     \<lparr>StatusCode = 502, Body = ''<html>Bad Gateway</html>'', Closed = False\<rparr>"

text \<open>
  A response whose body is a JSON document followed by one more character: the body as
  a whole is not valid JSON. The mock server does not send it.
\<close>

definition sample_trailing :: response where
  \<open>sample_trailing =
     \<lparr>StatusCode = 400, Body = ''{"errors":[{"errorId":11001}]}x'', Closed = False\<rparr>\<close>

definition sample_server :: "sample_request \<Rightarrow> go_error + response" where
  "sample_server req =
     (if URL req = ''https://api.ebay.com/down''
        then Inl (Lib ''dial tcp: connection refused'')
      else if URL req = ''https://api.ebay.com/item/1'' then Inr sample_found
      else if URL req = ''https://api.ebay.com/item/2'' then Inr sample_mistyped
      else if URL req = ''https://api.ebay.com/item/3'' then Inr sample_not_found
      else Inr sample_bad_gateway)"

definition sample_DumpRequest :: "sample_request \<Rightarrow> string \<times> go_error option" where
  "sample_DumpRequest req = (Method req @ '' '' @ URL req, None)"

definition sample_WithContext :: "sample_request \<Rightarrow> unit \<Rightarrow> sample_request" where
  "sample_WithContext req ctx = req"

text \<open>
  Decoding into a \<^verbatim>\<open>struct\<close> with a string field \<^verbatim>\<open>itemId\<close> and an integer
  field \<^verbatim>\<open>total\<close>. On a value of the wrong type for a field the decoder of
  \<^verbatim>\<open>encoding/json\<close> skips that field, stores the others and returns an error; on
  malformed or missing input it stores nothing.
\<close>

definition sample_json_Decode :: "string \<Rightarrow> item \<Rightarrow> string \<times> item \<times> go_error option" where
  \<open>sample_json_Decode body d =
     (if body = ''{"itemId":"itemId"}'' then ('''', d\<lparr>ItemID := ''itemId''\<rparr>, None)
      else if body = ''{"itemId":"x","total":"many"}''
        then ('''', d\<lparr>ItemID := ''x''\<rparr>,
              Some (Lib ''json: cannot unmarshal string into Go struct field .total of type int''))
      else if body = '''' then ('''', d, Some (Lib ''EOF''))
      else ('''', d, Some (Lib ''invalid character'')))\<close>

text \<open>
  Decoding into an \<^verbatim>\<open>ErrorData\<close>. \<^verbatim>\<open>Decode\<close> reads one JSON value from the
  front of the body and does not look at what follows it: a document followed by other
  characters is decoded without an error.
\<close>

definition sample_json_Decode_ErrorData ::
  "string \<Rightarrow> Error list \<Rightarrow> string \<times> Error list \<times> go_error option" where
  \<open>sample_json_Decode_ErrorData body errs =
     (if body = ''{"errors":[{"errorId":11001}]}'' \<or> body = ''{"errors":[{"errorId":11001}]}x''
        then ('''',
              [\<lparr>ErrorID = 11001, Domain = '''', SubDomain = '''', Category = '''', Message = '''',
                LongMessage = '''', InputRefIds = [], OuputRefIds = [], Parameters = []\<rparr>],
              None)
      else if body = '''' then ('''', errs, Some (Lib ''EOF''))
      else ('''', errs, Some (Lib ''invalid character'')))\<close>

definition sample_env :: "(string, sample_body, sample_request, unit, item) env" where
  "sample_env =
     \<lparr>url_Parse = sample_url_Parse, URL_Parse = sample_URL_Parse, URL_String = (\<lambda>u. u),
      json_Encode = sample_json_Encode, http_NewRequest = sample_http_NewRequest,
      http_DefaultClient = sample_server, httputil_DumpRequest = sample_DumpRequest,
      WithContext = sample_WithContext, json_Decode = sample_json_Decode,
      json_Decode_ErrorData = sample_json_Decode_ErrorData\<rparr>"

definition sample_client :: "(string, sample_request) Client" where
  "sample_client = NewClient sample_env None"

definition sample_get :: "string \<Rightarrow> sample_request" where
  "sample_get url = \<lparr>Method = ''GET'', URL = url, Payload = None, Header = []\<rparr>"

text \<open>A destination whose fields have their zero values.\<close>

definition sample_item :: item where
  "sample_item = \<lparr>ItemID = '''', Total = 0\<rparr>"

text \<open>An option that adds a header to the request, after those it already has.\<close>

definition sample_header :: "string \<Rightarrow> string \<Rightarrow> sample_request \<Rightarrow> sample_request" where
  "sample_header k v req = req\<lparr>Header := Header req @ [(k, v)]\<rparr>"

section \<open>Properties\<close>

subsection \<open>Helper lemmas\<close>

lemma HasSuffix_slash: "HasSuffix s ''/'' = (\<exists>p. s = p @ ''/'')"
proof
  assume h: "HasSuffix s ''/''"
  then have "s = take (length s - 1) s @ ''/''"
    by (metis HasSuffix_def append_take_drop_id length_Cons list.size(3) One_nat_def)
  then show "\<exists>p. s = p @ ''/''" by blast
next
  assume "\<exists>p. s = p @ ''/''"
  then show "HasSuffix s ''/''" by (auto simp: HasSuffix_def)
qed

lemma HasPrefix_slash: "HasPrefix s ''/'' = (\<exists>rest. s = ''/'' @ rest)"
  by (cases s) (auto simp: HasPrefix_def)

lemma applyOpts_foldl: "applyOpts opts req = foldl (\<lambda>r opt. opt r) req opts"
  by (induction opts arbitrary: req) simp_all

lemma IsError_codes_iff: "IsError_codes e codes = (ErrorID e \<in> set codes)"
  by (induction codes) auto

lemma IsError_entries_iff:
  "IsError_entries es codes = (\<exists>e. e \<in> set es \<and> ErrorID e \<in> set codes)"
  by (induction es) (auto simp: IsError_codes_iff)

lemmas sample_defs = sample_env_def sample_client_def NewClient_def newClient_def BaseURL_def
  sample_url_Parse_def sample_URL_Parse_def sample_json_Encode_def sample_escape_def
  sample_http_NewRequest_def sample_server_def sample_DumpRequest_def sample_WithContext_def
  sample_json_Decode_def sample_json_Decode_ErrorData_def sample_get_def sample_item_def
  sample_found_def sample_mistyped_def sample_not_found_def sample_bad_gateway_def
  sample_trailing_def
  HasPrefix_def HasSuffix_def

subsection \<open>Building a request\<close>

text \<open>
  C1, as the code has it. For a path that starts with a slash \<^verbatim>\<open>NewRequest\<close> returns
  its own error, whatever the libraries would do: the URL is not resolved and the body
  is not encoded. For a path that does not start with a slash it succeeds exactly when
  the resolution of the path against the base URL, the encoding of a non-nil body and
  \<^verbatim>\<open>http.NewRequest\<close> all succeed; the request is then the one that
  \<^verbatim>\<open>http.NewRequest\<close> builds from the method, the text of the resolved URL and the
  encoded body, with the options applied to it.
\<close>

theorem NewRequest_path:
  "NewRequest env c verb (''/'' @ rest) body opts =
     Failed (New ''url should always be specified without a preceding slash'')
   \<and> ((\<forall>rest. url \<noteq> ''/'' @ rest) \<longrightarrow>
      (NewRequest env c verb url body opts = Returned r) =
        (\<exists>u buf req. URL_Parse env (baseURL c) url = Returned u
           \<and> (case body of
                 None \<Rightarrow> buf = None
               | Some b \<Rightarrow> (\<exists>s. json_Encode env False b = Inr s \<and> buf = Some s))
           \<and> http_NewRequest env verb (URL_String env u) buf = Inr req
           \<and> r = applyOpts opts req))"
proof (intro conjI impI)
  show "NewRequest env c verb (''/'' @ rest) body opts =
      Failed (New ''url should always be specified without a preceding slash'')"
    by (simp add: NewRequest_def HasPrefix_def)
next
  assume "\<forall>rest. url \<noteq> ''/'' @ rest"
  then have "\<not> HasPrefix url ''/''"
    by (simp add: HasPrefix_slash)
  then show "(NewRequest env c verb url body opts = Returned r) =
        (\<exists>u buf req. URL_Parse env (baseURL c) url = Returned u
           \<and> (case body of
                 None \<Rightarrow> buf = None
               | Some b \<Rightarrow> (\<exists>s. json_Encode env False b = Inr s \<and> buf = Some s))
           \<and> http_NewRequest env verb (URL_String env u) buf = Inr req
           \<and> r = applyOpts opts req)"
    by (auto simp: NewRequest_def split: outcome.splits sum.splits option.splits)
qed

theorem NewRequest_path_witness:
  "NewRequest sample_env sample_client ''GET'' ''item/1'' None [] =
     Returned \<lparr>Method = ''GET'', URL = ''https://api.ebay.com/item/1'', Payload = None,
               Header = []\<rparr>"
  using NewRequest_path [where url = "''item/1''" and env = sample_env and c = sample_client
      and verb = "''GET''" and body = None and opts = "[]"
      and r = "\<lparr>Method = ''GET'', URL = ''https://api.ebay.com/item/1'', Payload = None,
                Header = []\<rparr>"]
  by (simp add: sample_defs)

text \<open>
  C1 as it was stated does not hold: a path without a leading slash whose URL resolves
  does not make \<^verbatim>\<open>NewRequest\<close> succeed. Here the body is a channel, which the JSON
  encoder refuses, and \<^verbatim>\<open>NewRequest\<close> returns the encoder's error.
\<close>

theorem NewRequest_success_counterexample:
  "\<not> HasPrefix ''item/1'' ''/''
   \<and> URL_Parse sample_env (baseURL sample_client) ''item/1'' =
       Returned ''https://api.ebay.com/item/1''
   \<and> NewRequest sample_env sample_client ''GET'' ''item/1'' (Some GoChan) [] =
       Failed (Lib ''json: unsupported type: chan int'')"
  by (simp add: NewRequest_def sample_defs)

text \<open>
  C8. Once the path has passed the check and the URL is resolved, a non-nil body is
  encoded with HTML escaping switched off. If the encoder fails, \<^verbatim>\<open>NewRequest\<close>
  returns the encoder's error and no request; otherwise the bytes the encoder wrote
  are the payload given to \<^verbatim>\<open>http.NewRequest\<close>. In the sample environment the
  characters \<open><\<close>, \<open>&\<close> and \<open>>\<close> of a string body reach the payload as they are.
\<close>

theorem NewRequest_body:
  "\<not> HasPrefix url ''/'' \<Longrightarrow> URL_Parse env (baseURL c) url = Returned u \<Longrightarrow>
     (json_Encode env False b = Inl err \<longrightarrow>
        NewRequest env c verb url (Some b) opts = Failed err)
     \<and> (json_Encode env False b = Inr s \<longrightarrow>
        NewRequest env c verb url (Some b) opts =
          (case http_NewRequest env verb (URL_String env u) (Some s) of
             Inl err' \<Rightarrow> Failed (WithStack err')
           | Inr req \<Rightarrow> Returned (applyOpts opts req)))"
  by (simp add: NewRequest_def)

theorem NewRequest_body_witness:
  "NewRequest sample_env sample_client ''POST'' ''item/1'' (Some (GoString ''a<b&c>d'')) [] =
     Returned \<lparr>Method = ''POST'', URL = ''https://api.ebay.com/item/1'',
               Payload = Some ([CHR 0x22] @ ''a<b&c>d'' @ [CHR 0x22, CHR 0x0A]), Header = []\<rparr>
   \<and> NewRequest sample_env sample_client ''POST'' ''item/1'' (Some GoChan) [] =
     Failed (Lib ''json: unsupported type: chan int'')"
  using NewRequest_body [where url = "''item/1''" and env = sample_env and c = sample_client
      and u = "''https://api.ebay.com/item/1''" and b = "GoString ''a<b&c>d''"
      and s = "[CHR 0x22] @ ''a<b&c>d'' @ [CHR 0x22, CHR 0x0A]" and verb = "''POST''"
      and opts = "[]"]
    NewRequest_body [where url = "''item/1''" and env = sample_env and c = sample_client
      and u = "''https://api.ebay.com/item/1''" and b = GoChan
      and err = "Lib ''json: unsupported type: chan int''" and verb = "''POST''"
      and opts = "[]"]
  by (simp add: sample_defs)

text \<open>
  C7. The options are applied from left to right to the request that has been built.
  When the path has no leading slash, the URL resolves, the body (if any) is encoded and
  \<^verbatim>\<open>http.NewRequest\<close> returns the request \<open>req\<close>, building without options
  returns \<open>req\<close>, building with the options A and B returns \<open>B (A req)\<close>, and
  building with any list of options returns the left fold of the options over
  \<open>req\<close>. So building with A and B gives what building without options and then
  applying A and then B gives; a build that fails or panics does so whatever the
  options are.
\<close>

theorem NewRequest_opts_in_order:
  "(\<not> HasPrefix url ''/'' \<and> URL_Parse env (baseURL c) url = Returned u
      \<and> (case body of
            None \<Rightarrow> buf = None
          | Some b \<Rightarrow> (\<exists>s. json_Encode env False b = Inr s \<and> buf = Some s))
      \<and> http_NewRequest env verb (URL_String env u) buf = Inr req \<longrightarrow>
        NewRequest env c verb url body [] = Returned req
        \<and> NewRequest env c verb url body [A, B] = Returned (B (A req))
        \<and> NewRequest env c verb url body opts = Returned (foldl (\<lambda>r opt. opt r) req opts))
   \<and> NewRequest env c verb url body [A, B] =
     (case NewRequest env c verb url body [] of
        Returned req \<Rightarrow> Returned (B (A req))
      | Failed err \<Rightarrow> Failed err
      | Panicked \<Rightarrow> Panicked)
   \<and> NewRequest env c verb url body opts =
     (case NewRequest env c verb url body [] of
        Returned req \<Rightarrow> Returned (foldl (\<lambda>r opt. opt r) req opts)
      | Failed err \<Rightarrow> Failed err
      | Panicked \<Rightarrow> Panicked)"
proof -
  have built: "\<not> HasPrefix url ''/'' \<and> URL_Parse env (baseURL c) url = Returned u
      \<and> (case body of
            None \<Rightarrow> buf = None
          | Some b \<Rightarrow> (\<exists>s. json_Encode env False b = Inr s \<and> buf = Some s))
      \<and> http_NewRequest env verb (URL_String env u) buf = Inr req \<longrightarrow>
        NewRequest env c verb url body os = Returned (foldl (\<lambda>r opt. opt r) req os)" for os
    by (auto simp: NewRequest_def applyOpts_foldl split: option.splits)
  have rel: "NewRequest env c verb url body os =
     (case NewRequest env c verb url body [] of
        Returned req \<Rightarrow> Returned (foldl (\<lambda>r opt. opt r) req os)
      | Failed err \<Rightarrow> Failed err
      | Panicked \<Rightarrow> Panicked)" for os
    by (simp add: NewRequest_def applyOpts_foldl split: outcome.splits sum.splits option.splits)
  have rel2: "NewRequest env c verb url body [A, B] =
     (case NewRequest env c verb url body [] of
        Returned req \<Rightarrow> Returned (B (A req))
      | Failed err \<Rightarrow> Failed err
      | Panicked \<Rightarrow> Panicked)"
    by (simp add: NewRequest_def split: outcome.splits sum.splits option.splits)
  show ?thesis
    using built [of "[]"] built [of "[A, B]"] built [of opts] rel2 rel [of opts]
    by simp
qed

theorem NewRequest_opts_in_order_witness:
  "NewRequest sample_env sample_client ''GET'' ''item/1'' None
       [sample_header ''Accept'' ''a'', sample_header ''Accept'' ''b''] =
     Returned \<lparr>Method = ''GET'', URL = ''https://api.ebay.com/item/1'', Payload = None,
               Header = [(''Accept'', ''a''), (''Accept'', ''b'')]\<rparr>
   \<and> NewRequest sample_env sample_client ''GET'' ''item/1'' None
       [sample_header ''Accept'' ''b'', sample_header ''Accept'' ''a''] =
     Returned \<lparr>Method = ''GET'', URL = ''https://api.ebay.com/item/1'', Payload = None,
               Header = [(''Accept'', ''b''), (''Accept'', ''a'')]\<rparr>"
  using NewRequest_opts_in_order [where url = "''item/1''" and env = sample_env
      and c = sample_client and u = "''https://api.ebay.com/item/1''" and body = None
      and buf = None and verb = "''GET''"
      and req = "\<lparr>Method = ''GET'', URL = ''https://api.ebay.com/item/1'', Payload = None,
                  Header = []\<rparr>"
      and A = "sample_header ''Accept'' ''a''" and B = "sample_header ''Accept'' ''b''"]
    NewRequest_opts_in_order [where url = "''item/1''" and env = sample_env
      and c = sample_client and u = "''https://api.ebay.com/item/1''" and body = None
      and buf = None and verb = "''GET''"
      and req = "\<lparr>Method = ''GET'', URL = ''https://api.ebay.com/item/1'', Payload = None,
                  Header = []\<rparr>"
      and A = "sample_header ''Accept'' ''b''" and B = "sample_header ''Accept'' ''a''"]
  by (simp add: sample_defs sample_header_def)

subsection \<open>Checking a response\<close>

text \<open>
  C2. \<^verbatim>\<open>CheckResponse\<close> returns nil exactly when the status code is in [200, 300).
  For every other status code it returns a non-nil error, an \<^verbatim>\<open>*ErrorData\<close>, that
  carries the status code of the response and the request dump it was given.
\<close>

theorem CheckResponse_status:
  "(snd (CheckResponse env req resp dump) = None) =
     (200 \<le> StatusCode resp \<and> StatusCode resp < 300)
   \<and> (\<not> (200 \<le> StatusCode resp \<and> StatusCode resp < 300) \<longrightarrow>
        (\<exists>errData. snd (CheckResponse env req resp dump) = Some (ErrorDataPtr (Some errData))
           \<and> StatusCode (response errData) = StatusCode resp
           \<and> requestDump errData = dump))"
  by (auto simp: CheckResponse_def Let_def split: prod.splits)

theorem CheckResponse_status_witness:
  "snd (CheckResponse sample_env (sample_get ''https://api.ebay.com/item/3'')
        sample_not_found ''dump'') \<noteq> None
   \<and> (\<exists>errData. snd (CheckResponse sample_env (sample_get ''https://api.ebay.com/item/3'')
        sample_not_found ''dump'') = Some (ErrorDataPtr (Some errData))
           \<and> StatusCode (response errData) = 404
           \<and> requestDump errData = ''dump'')"
  using CheckResponse_status [where env = sample_env
      and req = "sample_get ''https://api.ebay.com/item/3''" and resp = sample_not_found
      and dump = "''dump''"]
  by (simp add: sample_not_found_def)

text \<open>
  C4, as the code has it. On every response outside the 2xx range \<^verbatim>\<open>CheckResponse\<close>
  returns a non-nil \<^verbatim>\<open>*ErrorData\<close> that carries the response and the dump and whose
  entries are those that the JSON decoder, started on an empty list, left there. The
  decoder's error is dropped: a decoder that stores the same entries and returns another
  error, or none, gives the same result. So the list of entries is empty where the
  decoder stored nothing, as on a body that does not begin with a JSON value and on an
  empty body, and it is not empty where the decoder stored entries, be the body as a
  whole valid JSON or not. The response is one that \<^verbatim>\<open>net/http\<close> delivers: the
  pointer is not nil and there is a body to read.
\<close>

theorem CheckResponse_decode_error_dropped:
  "\<not> (200 \<le> StatusCode resp \<and> StatusCode resp < 300) \<Longrightarrow>
     CheckResponse env req resp dump =
       (resp\<lparr>Body := fst (json_Decode_ErrorData env (Body resp) [])\<rparr>,
        Some (ErrorDataPtr (Some
          \<lparr>Errors = fst (snd (json_Decode_ErrorData env (Body resp) [])),
           response = resp, requestDump = dump\<rparr>)))
     \<and> CheckResponse
          (env\<lparr>json_Decode_ErrorData := \<lambda>body errs.
             (fst (json_Decode_ErrorData env body errs),
              fst (snd (json_Decode_ErrorData env body errs)), derr body errs)\<rparr>)
          req resp dump =
        CheckResponse env req resp dump"
  by (simp add: CheckResponse_def Let_def split: prod.splits)

theorem CheckResponse_decode_error_dropped_witness:
  "CheckResponse sample_env (sample_get ''https://api.ebay.com/other'')
       sample_bad_gateway ''dump'' =
     (sample_bad_gateway\<lparr>Body := ''''\<rparr>,
      Some (ErrorDataPtr (Some
        \<lparr>Errors = [], response = sample_bad_gateway, requestDump = ''dump''\<rparr>)))
   \<and> CheckResponse sample_env (sample_get ''https://api.ebay.com/other'')
       \<lparr>StatusCode = 404, Body = '''', Closed = False\<rparr> ''dump'' =
     (\<lparr>StatusCode = 404, Body = '''', Closed = False\<rparr>,
      Some (ErrorDataPtr (Some
        \<lparr>Errors = [], response = \<lparr>StatusCode = 404, Body = '''', Closed = False\<rparr>,
         requestDump = ''dump''\<rparr>)))"
  using CheckResponse_decode_error_dropped [where resp = sample_bad_gateway
      and env = sample_env
      and req = "sample_get ''https://api.ebay.com/other''" and dump = "''dump''"]
    CheckResponse_decode_error_dropped [where
      resp = "\<lparr>StatusCode = 404, Body = '''', Closed = False\<rparr>"
      and env = sample_env
      and req = "sample_get ''https://api.ebay.com/other''" and dump = "''dump''"]
  by (simp add: sample_env_def sample_json_Decode_ErrorData_def sample_bad_gateway_def)

text \<open>
  C4 as it was stated does not hold for every body that is not valid JSON. The body of
  this 400 response is a JSON document followed by the character \<open>x\<close>. The decoder
  reads the document, stores its entry and returns no error, and the \<^verbatim>\<open>*ErrorData\<close>
  that \<^verbatim>\<open>CheckResponse\<close> returns has one entry.
\<close>

theorem CheckResponse_malformed_body_counterexample:
  \<open>Body sample_trailing = ''{"errors":[{"errorId":11001}]}x''
   \<and> StatusCode sample_trailing = 400
   \<and> snd (CheckResponse sample_env (sample_get ''https://api.ebay.com/other'')
        sample_trailing ''dump'') =
     Some (ErrorDataPtr (Some
       \<lparr>Errors = [\<lparr>ErrorID = 11001, Domain = '''', SubDomain = '''', Category = '''',
                   Message = '''', LongMessage = '''', InputRefIds = [], OuputRefIds = [],
                   Parameters = []\<rparr>],
        response = sample_trailing, requestDump = ''dump''\<rparr>))\<close>
  by (simp add: CheckResponse_def sample_env_def sample_json_Decode_ErrorData_def
      sample_trailing_def)

subsection \<open>Matching error codes\<close>

text \<open>
  C5, as the code has it. For every error other than a nil \<^verbatim>\<open>*ErrorData\<close> pointer
  held in the interface, \<^verbatim>\<open>IsError\<close> returns, and what it returns is true exactly
  when the error is an \<^verbatim>\<open>*ErrorData\<close> one of whose entries has one of the queried
  codes: it returns false on the nil error, on every error of another type, on an
  \<^verbatim>\<open>ErrorData\<close> none of whose entries has a queried code, and so on an empty list of
  entries and on an empty list of codes. On a nil \<^verbatim>\<open>*ErrorData\<close> pointer it panics,
  whatever the codes are.
\<close>

theorem IsError_matches:
  "(err \<noteq> Some (ErrorDataPtr None) \<longrightarrow>
      IsError err codes =
        Returned (\<exists>errData e code. err = Some (ErrorDataPtr (Some errData))
          \<and> e \<in> set (Errors errData) \<and> code \<in> set codes \<and> ErrorID e = code))
   \<and> IsError None codes = Returned False
   \<and> IsError (Some (New m)) codes = Returned False
   \<and> IsError (Some (Errorf m)) codes = Returned False
   \<and> IsError (Some (WithStack e')) codes = Returned False
   \<and> IsError (Some (Lib m)) codes = Returned False
   \<and> IsError (Some (ErrorDataPtr (Some (errData'\<lparr>Errors := []\<rparr>)))) codes = Returned False
   \<and> IsError (Some (ErrorDataPtr (Some errData'))) [] = Returned False
   \<and> IsError (Some (ErrorDataPtr None)) codes = Panicked"
proof -
  have main: "err \<noteq> Some (ErrorDataPtr None) \<longrightarrow>
      IsError err codes =
        Returned (\<exists>errData e code. err = Some (ErrorDataPtr (Some errData))
          \<and> e \<in> set (Errors errData) \<and> code \<in> set codes \<and> ErrorID e = code)"
    by (auto simp: IsError_def IsError_entries_iff split: option.splits go_error.splits)
  have rest: "IsError None codes = Returned False"
    "IsError (Some (New m)) codes = Returned False"
    "IsError (Some (Errorf m)) codes = Returned False"
    "IsError (Some (WithStack e')) codes = Returned False"
    "IsError (Some (Lib m)) codes = Returned False"
    "IsError (Some (ErrorDataPtr (Some (errData'\<lparr>Errors := []\<rparr>)))) codes = Returned False"
    "IsError (Some (ErrorDataPtr (Some errData'))) [] = Returned False"
    "IsError (Some (ErrorDataPtr None)) codes = Panicked"
    by (simp_all add: IsError_def IsError_entries_iff)
  show ?thesis using main rest by blast
qed

theorem IsError_matches_witness:
  "IsError (snd (CheckResponse sample_env (sample_get ''https://api.ebay.com/item/3'')
        sample_not_found ''dump'')) [5, 11001] = Returned True
   \<and> IsError (snd (CheckResponse sample_env (sample_get ''https://api.ebay.com/item/3'')
        sample_not_found ''dump'')) [5, 11002] = Returned False
   \<and> IsError (Some (WithStack (Lib ''dial tcp: connection refused''))) [11001] = Returned False"
proof -
  have e: "snd (CheckResponse sample_env (sample_get ''https://api.ebay.com/item/3'')
        sample_not_found ''dump'') =
      Some (ErrorDataPtr (Some
        \<lparr>Errors = [\<lparr>ErrorID = 11001, Domain = '''', SubDomain = '''', Category = '''',
                    Message = '''', LongMessage = '''', InputRefIds = [], OuputRefIds = [],
                    Parameters = []\<rparr>],
         response = sample_not_found, requestDump = ''dump''\<rparr>))"
    by (simp add: CheckResponse_def sample_env_def sample_json_Decode_ErrorData_def
        sample_not_found_def)
  show ?thesis
    unfolding e
    using IsError_matches [where codes = "[5, 11001]" and err = "Some (ErrorDataPtr (Some
        \<lparr>Errors = [\<lparr>ErrorID = 11001, Domain = '''', SubDomain = '''', Category = '''',
                    Message = '''', LongMessage = '''', InputRefIds = [], OuputRefIds = [],
                    Parameters = []\<rparr>],
         response = sample_not_found, requestDump = ''dump''\<rparr>))"]
      IsError_matches [where codes = "[5, 11002]" and err = "Some (ErrorDataPtr (Some
        \<lparr>Errors = [\<lparr>ErrorID = 11001, Domain = '''', SubDomain = '''', Category = '''',
                    Message = '''', LongMessage = '''', InputRefIds = [], OuputRefIds = [],
                    Parameters = []\<rparr>],
         response = sample_not_found, requestDump = ''dump''\<rparr>))"]
      IsError_matches [where codes = "[11001]"
        and err = "Some (WithStack (Lib ''dial tcp: connection refused''))"]
    by simp
qed

text \<open>
  C5 as it was stated does not hold for every error value. An error interface that
  holds a nil \<^verbatim>\<open>*ErrorData\<close> pointer is not the nil error and passes the type
  assertion; \<^verbatim>\<open>IsError\<close> then reads \<^verbatim>\<open>Errors\<close> through the nil pointer and panics,
  also when no code is queried, where it was said to return false.
\<close>

theorem IsError_nil_pointer_counterexample:
  "IsError (Some (ErrorDataPtr None)) [] = Panicked
   \<and> IsError (Some (ErrorDataPtr None)) [11001] = Panicked"
  by (simp add: IsError_def)

subsection \<open>Sending a request\<close>

text \<open>
  C3, as the code has it. When the transport fails, \<^verbatim>\<open>Do\<close> returns the wrapped
  transport error and the destination is untouched. When \<^verbatim>\<open>CheckResponse\<close> reports
  a status outside the 2xx range, \<^verbatim>\<open>Do\<close> returns that error, which is not nil, and
  the destination is untouched. On a 2xx response with a destination, the destination
  is what the JSON decoder leaves in it and the error is the decoder's, wrapped (nil when
  the decoder returns none): \<^verbatim>\<open>Do\<close> does not undo what a failing decoder stored.
\<close>

theorem Do_destination:
  "(client c (WithContext env req ctx) = Inl e \<longrightarrow>
      Do env c ctx req v = \<lparr>do_err = Some (WithStack e), do_dest = v, do_resp = None\<rparr>)
   \<and> (client c (WithContext env req ctx) = Inr resp
        \<and> \<not> (200 \<le> StatusCode resp \<and> StatusCode resp < 300) \<longrightarrow>
      do_err (Do env c ctx req v) =
        snd (CheckResponse env req resp (fst (httputil_DumpRequest env req)))
      \<and> do_err (Do env c ctx req v) \<noteq> None
      \<and> do_dest (Do env c ctx req v) = v)
   \<and> (client c (WithContext env req ctx) = Inr resp
        \<and> 200 \<le> StatusCode resp \<and> StatusCode resp < 300 \<longrightarrow>
      do_err (Do env c ctx req (Some d)) =
        errors_WithStack (snd (snd (json_Decode env (Body resp) d)))
      \<and> do_dest (Do env c ctx req (Some d)) = Some (fst (snd (json_Decode env (Body resp) d))))"
  by (auto simp: Do_def CheckResponse_def Let_def errors_WithStack_def split: prod.splits)

theorem Do_destination_witness:
  "Do sample_env sample_client () (sample_get ''https://api.ebay.com/down'') (Some sample_item) =
     \<lparr>do_err = Some (WithStack (Lib ''dial tcp: connection refused'')),
      do_dest = Some sample_item, do_resp = None\<rparr>
   \<and> do_err (Do sample_env sample_client () (sample_get ''https://api.ebay.com/item/3'')
        (Some sample_item)) \<noteq> None
   \<and> do_dest (Do sample_env sample_client () (sample_get ''https://api.ebay.com/item/3'')
        (Some sample_item)) = Some sample_item
   \<and> do_err (Do sample_env sample_client () (sample_get ''https://api.ebay.com/item/1'')
        (Some sample_item)) = None
   \<and> do_dest (Do sample_env sample_client () (sample_get ''https://api.ebay.com/item/1'')
        (Some sample_item)) = Some \<lparr>ItemID = ''itemId'', Total = 0\<rparr>"
proof -
  have down: "client sample_client
      (WithContext sample_env (sample_get ''https://api.ebay.com/down'') ()) =
      Inl (Lib ''dial tcp: connection refused'')"
    by (simp add: sample_defs)
  have missing: "client sample_client
      (WithContext sample_env (sample_get ''https://api.ebay.com/item/3'') ()) =
      Inr sample_not_found
      \<and> \<not> (200 \<le> StatusCode sample_not_found \<and> StatusCode sample_not_found < 300)"
    by (simp add: sample_defs)
  have found: "client sample_client
      (WithContext sample_env (sample_get ''https://api.ebay.com/item/1'') ()) =
      Inr sample_found
      \<and> 200 \<le> StatusCode sample_found \<and> StatusCode sample_found < 300"
    by (simp add: sample_defs)
  have decoded: "json_Decode sample_env (Body sample_found) sample_item =
      ('''', \<lparr>ItemID = ''itemId'', Total = 0\<rparr>, None)"
    by (simp add: sample_defs)
  have a: "Do sample_env sample_client () (sample_get ''https://api.ebay.com/down'')
      (Some sample_item) =
     \<lparr>do_err = Some (WithStack (Lib ''dial tcp: connection refused'')),
      do_dest = Some sample_item, do_resp = None\<rparr>"
    using down Do_destination [where c = sample_client and env = sample_env and ctx = "()"
      and req = "sample_get ''https://api.ebay.com/down''"
      and e = "Lib ''dial tcp: connection refused''" and v = "Some sample_item"]
    by blast
  have b: "do_err (Do sample_env sample_client () (sample_get ''https://api.ebay.com/item/3'')
        (Some sample_item)) \<noteq> None
     \<and> do_dest (Do sample_env sample_client () (sample_get ''https://api.ebay.com/item/3'')
        (Some sample_item)) = Some sample_item"
    using missing Do_destination [where c = sample_client and env = sample_env and ctx = "()"
      and req = "sample_get ''https://api.ebay.com/item/3''" and resp = sample_not_found
      and v = "Some sample_item"]
    by blast
  have "do_err (Do sample_env sample_client () (sample_get ''https://api.ebay.com/item/1'')
        (Some sample_item)) =
        errors_WithStack (snd (snd (json_Decode sample_env (Body sample_found) sample_item)))
     \<and> do_dest (Do sample_env sample_client () (sample_get ''https://api.ebay.com/item/1'')
        (Some sample_item)) =
        Some (fst (snd (json_Decode sample_env (Body sample_found) sample_item)))"
    using found Do_destination [where c = sample_client and env = sample_env and ctx = "()"
      and req = "sample_get ''https://api.ebay.com/item/1''" and resp = sample_found
      and d = sample_item]
    by blast
  then have c: "do_err (Do sample_env sample_client () (sample_get ''https://api.ebay.com/item/1'')
        (Some sample_item)) = None
     \<and> do_dest (Do sample_env sample_client () (sample_get ''https://api.ebay.com/item/1'')
        (Some sample_item)) = Some \<lparr>ItemID = ''itemId'', Total = 0\<rparr>"
    by (simp add: decoded errors_WithStack_def)
  show ?thesis
    using a b c by blast
qed

text \<open>
  C3 as it was stated does not hold on a decode failure. The server answers 200 with a
  document whose \<^verbatim>\<open>total\<close> is a string; the decoder stores \<^verbatim>\<open>itemId\<close> and
  returns an error for \<^verbatim>\<open>total\<close>. \<^verbatim>\<open>Do\<close> returns the error, and the destination, which
  was \<open>sample_item\<close>, has changed.
\<close>

theorem Do_destination_counterexample:
  "Do sample_env sample_client () (sample_get ''https://api.ebay.com/item/2'')
      (Some \<lparr>ItemID = '''', Total = 0\<rparr>) =
     \<lparr>do_err = Some (WithStack
        (Lib ''json: cannot unmarshal string into Go struct field .total of type int'')),
      do_dest = Some \<lparr>ItemID = ''x'', Total = 0\<rparr>,
      do_resp = Some \<lparr>StatusCode = 200, Body = '''', Closed = True\<rparr>\<rparr>"
  by (simp add: Do_def CheckResponse_def Body_Close_def errors_WithStack_def sample_defs)

text \<open>
  C6, as the code has it. On a 2xx response with a nil destination \<^verbatim>\<open>Do\<close> returns
  nil and decodes nothing: whatever the decoders are, the result is the same. The body is
  closed, and it is left as it arrived: \<^verbatim>\<open>Do\<close> reads nothing from it on this path.
\<close>

theorem Do_nil_destination:
  "client c (WithContext env req ctx) = Inr resp \<Longrightarrow>
   200 \<le> StatusCode resp \<Longrightarrow> StatusCode resp < 300 \<Longrightarrow>
     Do env c ctx req None =
       \<lparr>do_err = None, do_dest = None, do_resp = Some (resp\<lparr>Closed := True\<rparr>)\<rparr>
     \<and> Do (env\<lparr>json_Decode := dec, json_Decode_ErrorData := dec'\<rparr>) c ctx req None =
       Do env c ctx req None"
  by (simp add: Do_def CheckResponse_def Body_Close_def)

theorem Do_nil_destination_witness:
  "Do sample_env sample_client () (sample_get ''https://api.ebay.com/item/1'') None =
     \<lparr>do_err = None, do_dest = None, do_resp = Some (sample_found\<lparr>Closed := True\<rparr>)\<rparr>"
  using Do_nil_destination [where c = sample_client and env = sample_env
      and req = "sample_get ''https://api.ebay.com/item/1''" and ctx = "()"
      and resp = sample_found]
  by (simp add: sample_defs)

text \<open>
  C6 as it was stated does not hold: the body is not read. The server answers 200 with a
  document of nineteen bytes; after \<^verbatim>\<open>Do\<close> with a nil destination the body is closed
  and all nineteen bytes are still unread.
\<close>

theorem Do_nil_destination_counterexample:
  \<open>Do sample_env sample_client () (sample_get ''https://api.ebay.com/item/1'') None =
     \<lparr>do_err = None, do_dest = None,
      do_resp = Some \<lparr>StatusCode = 200, Body = ''{"itemId":"itemId"}'', Closed = True\<rparr>\<rparr>
   \<and> do_resp (Do sample_env sample_client () (sample_get ''https://api.ebay.com/item/1'') None)
       \<noteq> Some \<lparr>StatusCode = 200, Body = '''', Closed = True\<rparr>\<close>
  by (simp add: Do_def CheckResponse_def Body_Close_def sample_defs)

subsection \<open>Constructing a client\<close>

text \<open>
  C9. \<^verbatim>\<open>NewCustomClient\<close> returns an error exactly when the base URL does not end
  with a slash; every string that ends with a slash passes construction.
\<close>

theorem NewCustomClient_trailing_slash:
  "(\<exists>e. NewCustomClient env httpclient base = Inl e) = (\<not> (\<exists>p. base = p @ ''/''))
   \<and> NewCustomClient env httpclient (p @ ''/'') = Inr (newClient env httpclient (p @ ''/''))"
proof -
  have a: "(\<exists>e. NewCustomClient env httpclient base = Inl e) = (\<not> HasSuffix base ''/'')"
    by (simp add: NewCustomClient_def)
  have b: "HasSuffix (p @ ''/'') ''/''"
    by (simp add: HasSuffix_def)
  show ?thesis
    using a b by (simp add: HasSuffix_slash NewCustomClient_def)
qed

text \<open>
  C10. The client is built whatever \<^verbatim>\<open>url.Parse\<close> says of the base URL. For a base
  URL that ends with a slash and that \<^verbatim>\<open>url.Parse\<close> rejects, \<^verbatim>\<open>NewCustomClient\<close>
  succeeds and the client's base URL is nil. \<^verbatim>\<open>NewRequest\<close> on that client does not
  check the base URL: it calls \<^verbatim>\<open>Parse\<close> on the nil pointer, and where that call
  panics on the nil receiver \<^verbatim>\<open>NewRequest\<close> panics; it returns no error.
\<close>

theorem newClient_nil_baseURL:
  "HasSuffix base ''/'' \<Longrightarrow> url_Parse env base = Inl e \<Longrightarrow>
     NewCustomClient env httpclient base = Inr (newClient env httpclient base)
     \<and> baseURL (newClient env httpclient base) = None
     \<and> (\<not> HasPrefix url ''/'' \<and> URL_Parse env None url = Panicked \<longrightarrow>
          NewRequest env (newClient env httpclient base) verb url body opts = Panicked)"
  by (simp add: NewCustomClient_def newClient_def NewRequest_def)

theorem newClient_nil_baseURL_witness:
  "NewCustomClient sample_env None '':/'' = Inr (newClient sample_env None '':/'')
   \<and> baseURL (newClient sample_env None '':/'') = None
   \<and> NewRequest sample_env (newClient sample_env None '':/'') ''GET'' ''item/1'' None [] = Panicked"
  using newClient_nil_baseURL [where base = "'':/''" and env = sample_env
      and e = "Lib ''missing protocol scheme''" and httpclient = None and url = "''item/1''"
      and verb = "''GET''" and body = None and opts = "[]"]
  by (simp add: sample_env_def sample_url_Parse_def sample_URL_Parse_def HasPrefix_def
      HasSuffix_def)

end
